theory Spec2Isabelle
  imports Main
begin

text \<open>
  The MCP server of \<^verbatim>\<open>src/server.ts\<close> registers eight tools over the marker libraries
  \<^verbatim>\<open>cellar-door-exit\<close> and \<^verbatim>\<open>cellar-door-entry\<close>, and keeps one signing identity per
  server instance. This theory embeds the handlers as functions of the session state,
  with the library functions as parameters, embeds the start-up code that reads the
  deployment policy, and models the admission engine and the continuity verifier from
  their specification. The properties proved are about policy resolution, refused
  admissions, the session identity, the confinement of private keys and the transfer
  check.
\<close>

section \<open>Values crossing the tool boundary\<close>

text \<open>
  Every tool of \<^verbatim>\<open>src/server.ts\<close> answers with
  \<^verbatim>\<open>{content: [{type: "text", text: JSON.stringify(v, null, 2)}], isError?: true}\<close>.
  The model keeps the JavaScript value \<open>v\<close> that is handed to \<^verbatim>\<open>JSON.stringify\<close>
  as a \<open>json\<close> tree, so that the keys and leaves of a payload can be inspected.
\<close>

datatype json =
    JNull
  | JBool bool
  | JNum int
  | JStr string
  | JArr "json list"
  | JObj "(string \<times> json) list"

text \<open>An exception of the source, carrying \<^verbatim>\<open>err.message\<close>.\<close>

datatype error = Thrown string

fun message :: "error \<Rightarrow> string" where
  "message (Thrown m) = m"

text \<open>
  An object literal some of whose members may be \<^verbatim>\<open>undefined\<close> (\<open>None\<close>):
  \<^verbatim>\<open>JSON.stringify\<close> leaves such members out.
\<close>

fun obj_members :: "(string \<times> json option) list \<Rightarrow> (string \<times> json) list" where
  "obj_members [] = []"
| "obj_members ((k, None) # kvs) = obj_members kvs"
| "obj_members ((k, Some v) # kvs) = (k, v) # obj_members kvs"

definition obj :: "(string \<times> json option) list \<Rightarrow> json" where
  "obj kvs = JObj (obj_members kvs)"

text \<open>
  What a tool callback hands back: the value that is stringified into the text content,
  and whether \<^verbatim>\<open>isError: true\<close> is set.
\<close>

record ToolResult =
  payload :: json
  isError :: bool

definition ok_result :: "json \<Rightarrow> ToolResult" where
  "ok_result v = \<lparr>payload = v, isError = False\<rparr>"

definition error_result :: "json \<Rightarrow> ToolResult" where
  "error_result v = \<lparr>payload = v, isError = True\<rparr>"

section \<open>Data model of the marker libraries\<close>

datatype ExitType = Voluntary | Forced | Emergency | KeyCompromise

text \<open>
  \<^verbatim>\<open>ExitType[exitType as keyof typeof ExitType]\<close>: the enum member of that name,
  \<^verbatim>\<open>undefined\<close> for any other key.
\<close>

definition ExitType_member :: "string \<Rightarrow> ExitType option" where
  "ExitType_member k =
     (if k = ''Voluntary'' then Some Voluntary
      else if k = ''Forced'' then Some Forced
      else if k = ''Emergency'' then Some Emergency
      else if k = ''KeyCompromise'' then Some KeyCompromise
      else None)"

definition ExitType_name :: "ExitType \<Rightarrow> string" where
  "ExitType_name t =
     (case t of Voluntary \<Rightarrow> ''Voluntary'' | Forced \<Rightarrow> ''Forced''
      | Emergency \<Rightarrow> ''Emergency'' | KeyCompromise \<Rightarrow> ''KeyCompromise'')"

record Identity =
  did :: string
  publicKey :: string
  privateKey :: string

text \<open>
  The exit marker, with the fields the handlers read (\<open>subject\<close>, \<open>exitType\<close>,
  \<open>timestamp\<close>, \<open>id\<close>) and those of the data model (section 3 of the specification).
  Instants are seconds on one clock.
\<close>

record ExitMarker =
  marker_id :: string
  subject :: string
  origin :: string
  exitType :: ExitType
  timestamp :: int
  reason :: "string option"
  lineage :: "json option"
  stateSnapshot :: "json option"
  signature :: "string option"

record ArrivalMarker =
  exitMarkerId :: string
  destination :: string
  arrival_timestamp :: int
  arrival_signature :: "string option"

text \<open>
  Modelled from the spec: the type \<^verbatim>\<open>AdmissionPolicy\<close> and the three presets
  \<^verbatim>\<open>OPEN_DOOR\<close>, \<^verbatim>\<open>STRICT\<close>, \<^verbatim>\<open>EMERGENCY_ONLY\<close> are imported from
  \<^verbatim>\<open>cellar-door-entry\<close>, which is not among the sources. Section 3 of the
  specification gives the options and the presets; the tool descriptions in
  \<^verbatim>\<open>list_admission_policies\<close> agree with them.
\<close>

record AdmissionPolicy =
  requireVerifiedDeparture :: bool
  allowedExitTypes :: "ExitType list"
  maxAgeSeconds :: "int option"
  requiredModules :: "string list"

definition OPEN_DOOR :: AdmissionPolicy where
  "OPEN_DOOR = \<lparr>requireVerifiedDeparture = True, allowedExitTypes = [],
     maxAgeSeconds = None, requiredModules = []\<rparr>"

definition STRICT :: AdmissionPolicy where
  "STRICT = \<lparr>requireVerifiedDeparture = True, allowedExitTypes = [Voluntary],
     maxAgeSeconds = Some (24 * 60 * 60),
     requiredModules = [''lineage'', ''stateSnapshot'']\<rparr>"

definition EMERGENCY_ONLY :: AdmissionPolicy where
  "EMERGENCY_ONLY = \<lparr>requireVerifiedDeparture = True, allowedExitTypes = [Emergency],
     maxAgeSeconds = None, requiredModules = []\<rparr>"

record AdmissionResult =
  admitted :: bool
  reasons :: "string list"

record Continuity =
  valid :: bool
  continuity_errors :: "string list"

record TransferRecord =
  verified :: bool
  transferTime :: int
  errors :: "string list"
  continuity :: Continuity

section \<open>Server options and policy resolution\<close>

text \<open>
  \<^verbatim>\<open>CreateServerOptions\<close>. The TypeScript type of \<open>serverPolicy\<close> is the union of
  the three preset names; at run time it is whatever string the embedding program
  passes, so the model keeps a string.
\<close>

record CreateServerOptions =
  serverPolicy :: "string option"

text \<open>The \<^verbatim>\<open>z.enum(["OPEN_DOOR", "STRICT", "EMERGENCY_ONLY"])\<close> of both admission tools.\<close>

definition policy_enum :: "string list" where
  "policy_enum = [''OPEN_DOOR'', ''STRICT'', ''EMERGENCY_ONLY'']"

text \<open>
  What the lookup \<^verbatim>\<open>admissionPresets[name]\<close> can yield on the object literal
  \<^verbatim>\<open>{OPEN_DOOR, STRICT, EMERGENCY_ONLY}\<close>: one of its three own members, a member
  inherited from \<^verbatim>\<open>Object.prototype\<close> (for a name such as \<open>constructor\<close>), or
  \<^verbatim>\<open>undefined\<close>. Whatever it yields is passed on to the engine as its policy argument.
\<close>

datatype PresetLookup = Preset AdmissionPolicy | Inherited string | Undefined

text \<open>The property names every object inherits from \<^verbatim>\<open>Object.prototype\<close>.\<close>

definition Object_prototype_names :: "string list" where
  "Object_prototype_names =
     [''constructor'', ''hasOwnProperty'', ''isPrototypeOf'', ''propertyIsEnumerable'',
      ''toLocaleString'', ''toString'', ''valueOf'', ''__proto__'',
      ''__defineGetter__'', ''__defineSetter__'', ''__lookupGetter__'', ''__lookupSetter__'']"

text \<open>
  \<^verbatim>\<open>const admissionPresets: Record<string, AdmissionPolicy> = {OPEN_DOOR, STRICT, EMERGENCY_ONLY}\<close>
  and the lookup \<^verbatim>\<open>admissionPresets[name]\<close>: own members first, then the prototype.
\<close>

definition admissionPresets :: "string \<Rightarrow> PresetLookup" where
  "admissionPresets name =
     (case map_of [(''OPEN_DOOR'', OPEN_DOOR), (''STRICT'', STRICT),
                   (''EMERGENCY_ONLY'', EMERGENCY_ONLY)] name of
        Some p \<Rightarrow> Preset p
      | None \<Rightarrow> if name \<in> set Object_prototype_names then Inherited name else Undefined)"

text \<open>
  \<^verbatim>\<open>main\<close> of the command-line entry point: \<^verbatim>\<open>CELLAR_DOOR_SERVER_POLICY\<close> becomes
  \<open>serverPolicy\<close> only when it is a non-empty string among the three names.
\<close>

definition main_options :: "string option \<Rightarrow> CreateServerOptions" where
  "main_options envPolicy =
     (case envPolicy of
        None \<Rightarrow> \<lparr>serverPolicy = None\<rparr>
      | Some p \<Rightarrow>
          if p \<noteq> [] \<and> p \<in> set [''OPEN_DOOR'', ''STRICT'', ''EMERGENCY_ONLY'']
          then \<lparr>serverPolicy = Some p\<rparr>
          else \<lparr>serverPolicy = None\<rparr>)"

text \<open>
  \<^verbatim>\<open>const policyName = options.serverPolicy ?? admissionPolicy ?? "OPEN_DOOR"\<close>
  in \<^verbatim>\<open>verify_and_admit\<close>, whose \<open>admissionPolicy\<close> argument is optional.
\<close>

definition policyName :: "CreateServerOptions \<Rightarrow> string option \<Rightarrow> string" where
  "policyName options admissionPolicy =
     (case serverPolicy options of
        Some s \<Rightarrow> s
      | None \<Rightarrow> (case admissionPolicy of Some a \<Rightarrow> a | None \<Rightarrow> ''OPEN_DOOR''))"

text \<open>
  \<^verbatim>\<open>const effectivePolicy = options.serverPolicy ?? policy\<close> in
  \<^verbatim>\<open>evaluate_admission\<close>, whose \<open>policy\<close> argument the schema requires.
\<close>

definition effectivePolicy :: "CreateServerOptions \<Rightarrow> string \<Rightarrow> string" where
  "effectivePolicy options policy =
     (case serverPolicy options of Some s \<Rightarrow> s | None \<Rightarrow> policy)"

text \<open>
  An admission request as the two tools receive it after schema validation:
  \<^verbatim>\<open>verify_and_admit {exitMarkerJson, destination, admissionPolicy?}\<close> and
  \<^verbatim>\<open>evaluate_admission {exitMarkerJson, policy}\<close>.
\<close>

datatype AdmissionRequest =
    VerifyAndAdmit string string "string option"
  | EvaluateAdmission string string

fun callerPolicy :: "AdmissionRequest \<Rightarrow> string option" where
  "callerPolicy (VerifyAndAdmit exitMarkerJson dest admissionPolicy) = admissionPolicy"
| "callerPolicy (EvaluateAdmission exitMarkerJson policy) = Some policy"

text \<open>Two requests to the same tool that differ at most in the caller-supplied policy name.\<close>

fun sameExceptPolicy :: "AdmissionRequest \<Rightarrow> AdmissionRequest \<Rightarrow> bool" where
  "sameExceptPolicy (VerifyAndAdmit j d p) (VerifyAndAdmit j' d' p') = (j = j' \<and> d = d')"
| "sameExceptPolicy (EvaluateAdmission j p) (EvaluateAdmission j' p') = (j = j')"
| "sameExceptPolicy r r' = False"

text \<open>The name each handler resolves, and the policy it hands to the engine.\<close>

fun resolvedName :: "CreateServerOptions \<Rightarrow> AdmissionRequest \<Rightarrow> string" where
  "resolvedName options (VerifyAndAdmit exitMarkerJson dest admissionPolicy) =
     policyName options admissionPolicy"
| "resolvedName options (EvaluateAdmission exitMarkerJson policy) =
     effectivePolicy options policy"

definition resolvedPolicy :: "CreateServerOptions \<Rightarrow> AdmissionRequest \<Rightarrow> PresetLookup" where
  "resolvedPolicy options req = admissionPresets (resolvedName options req)"

section \<open>The external collaborators\<close>

text \<open>
  The handlers call into \<^verbatim>\<open>cellar-door-exit\<close>, \<^verbatim>\<open>cellar-door-entry\<close> and
  \<^verbatim>\<open>JSON\<close>. These are taken as parameters: one record of functions, each returning
  \<open>Inl\<close> where the JavaScript function throws (or its promise rejects). The type \<open>'w\<close>
  is whatever the collaborators read besides their arguments (random source, wall
  clock); the ones that draw from it return it updated.
\<close>

record QuickExitResult =
  qx_marker :: ExitMarker
  qx_identity :: Identity

record QuickEntryResult =
  qe_arrivalMarker :: json
  qe_exitMarker :: ExitMarker
  qe_continuity :: json

record 'w Collaborators =
  generateIdentity :: "'w \<Rightarrow> (error + Identity) \<times> 'w"
  quickExit :: "'w \<Rightarrow> string \<Rightarrow> ExitType option \<Rightarrow> string option \<Rightarrow> (error + QuickExitResult) \<times> 'w"
  createMarker :: "'w \<Rightarrow> string \<Rightarrow> string \<Rightarrow> ExitType option \<Rightarrow> (error + ExitMarker) \<times> 'w"
  signMarker :: "'w \<Rightarrow> ExitMarker \<Rightarrow> string \<Rightarrow> string \<Rightarrow> (error + ExitMarker) \<times> 'w"
  verifyMarker :: "'w \<Rightarrow> ExitMarker \<Rightarrow> error + json"
  toJSON :: "ExitMarker \<Rightarrow> error + string"
  fromJSON :: "string \<Rightarrow> error + ExitMarker"
  JSON_parse :: "string \<Rightarrow> error + json"
  evaluateAdmission :: "'w \<Rightarrow> ExitMarker \<Rightarrow> PresetLookup \<Rightarrow> error + AdmissionResult"
  quickEntry :: "'w \<Rightarrow> string \<Rightarrow> string \<Rightarrow> (error + QuickEntryResult) \<times> 'w"
  verifyTransfer :: "'w \<Rightarrow> ExitMarker \<Rightarrow> json \<Rightarrow> error + TransferRecord"

text \<open>
  The state of one server instance: the closure variable
  \<^verbatim>\<open>let sessionIdentity: Identity | null = null\<close>, and the collaborators' world.
\<close>

record 'w Session =
  sessionIdentity :: "Identity option"
  world :: 'w

definition createServer :: "'w \<Rightarrow> 'w Session" where
  "createServer w = \<lparr>sessionIdentity = None, world = w\<rparr>"

section \<open>The tool handlers\<close>

text \<open>
  A handler returns \<open>Inr\<close> of its result, or \<open>Inl\<close> when an exception leaves the
  callback (the handlers without \<^verbatim>\<open>try\<close>), together with the session afterwards.
\<close>

type_synonym 'w Handled = "(error + ToolResult) \<times> 'w Session"

text \<open>
  \<^verbatim>\<open>typeof r === 'object' && r !== null ? r.valid : r\<close>: the member \<open>valid\<close> of an
  object (\<^verbatim>\<open>undefined\<close> when it has none, as for an array), the value itself otherwise.
\<close>

fun valid_of :: "json \<Rightarrow> json option" where
  "valid_of (JObj kvs) = map_of kvs ''valid''"
| "valid_of (JArr xs) = None"
| "valid_of v = Some v"

text \<open>\<^verbatim>\<open>JSON.parse(toJSON(m))\<close>.\<close>

definition marker_json :: "'w Collaborators \<Rightarrow> ExitMarker \<Rightarrow> error + json" where
  "marker_json env m =
     (case toJSON env m of Inl e \<Rightarrow> Inl e | Inr text \<Rightarrow> JSON_parse env text)"

definition identity_message :: string where
  "identity_message = ''Identity generated and stored server-side for this session. Use create_exit_marker or quick_exit to sign markers. Private key material is not exposed.''"

definition generate_identity :: "'w Collaborators \<Rightarrow> 'w Session \<Rightarrow> 'w Handled" where
  "generate_identity env st =
     (case generateIdentity env (world st) of
        (Inl e, w1) \<Rightarrow> (Inl e, st\<lparr>world := w1\<rparr>)
      | (Inr identity, w1) \<Rightarrow>
          (Inr (ok_result (obj
             [(''did'', Some (JStr (did identity))),
              (''message'', Some (JStr identity_message))])),
           \<lparr>sessionIdentity = Some identity, world = w1\<rparr>))"

definition quick_exit ::
  "'w Collaborators \<Rightarrow> string \<Rightarrow> string option \<Rightarrow> string option \<Rightarrow> 'w Session \<Rightarrow> 'w Handled" where
  "quick_exit env origin' exitType' reason' st =
     (let et = (case exitType' of
                  None \<Rightarrow> None
                | Some k \<Rightarrow> if k = [] then None else ExitType_member k)
      in case quickExit env (world st) origin' et reason' of
        (Inl e, w1) \<Rightarrow> (Inl e, st\<lparr>world := w1\<rparr>)
      | (Inr result, w1) \<Rightarrow>
          (let st1 = \<lparr>sessionIdentity = Some (qx_identity result), world = w1\<rparr>
           in case verifyMarker env w1 (qx_marker result) of
             Inl e \<Rightarrow> (Inl e, st1)
           | Inr verifyResult \<Rightarrow>
               (case marker_json env (qx_marker result) of
                  Inl e \<Rightarrow> (Inl e, st1)
                | Inr mj \<Rightarrow>
                    (Inr (ok_result (obj
                       [(''marker'', Some mj),
                        (''signerDid'', Some (JStr (did (qx_identity result)))),
                        (''verified'', valid_of verifyResult)])),
                     st1))))"

definition create_exit_marker ::
  "'w Collaborators \<Rightarrow> string \<Rightarrow> string option \<Rightarrow> string option \<Rightarrow> 'w Session \<Rightarrow> 'w Handled" where
  "create_exit_marker env origin' exitType' reason' st =
     (case (case sessionIdentity st of
              Some i \<Rightarrow> (Inr i, world st)
            | None \<Rightarrow> generateIdentity env (world st)) of
        (Inl e, w1) \<Rightarrow> (Inl e, st\<lparr>world := w1\<rparr>)
      | (Inr identity, w1) \<Rightarrow>
          (let et = (case exitType' of
                       None \<Rightarrow> Some Voluntary
                     | Some k \<Rightarrow> if k = [] then Some Voluntary else ExitType_member k)
           in case createMarker env w1 origin' origin' et of
             (Inl e, w2) \<Rightarrow> (Inl e, \<lparr>sessionIdentity = Some identity, world = w2\<rparr>)
           | (Inr marker, w2) \<Rightarrow>
               (case signMarker env w2 marker (privateKey identity) (publicKey identity) of
                  (Inl e, w3) \<Rightarrow> (Inl e, \<lparr>sessionIdentity = Some identity, world = w3\<rparr>)
                | (Inr signed, w3) \<Rightarrow>
                    (case marker_json env signed of
                       Inl e \<Rightarrow> (Inl e, \<lparr>sessionIdentity = Some identity, world = w3\<rparr>)
                     | Inr mj \<Rightarrow>
                         (Inr (ok_result (obj
                            [(''marker'', Some mj),
                             (''signerDid'', Some (JStr (did identity)))])),
                          \<lparr>sessionIdentity = Some identity, world = w3\<rparr>)))))"

text \<open>\<^verbatim>\<open>err.message || "Verification failed"\<close>.\<close>

definition message_or :: "error \<Rightarrow> string \<Rightarrow> string" where
  "message_or e d = (if message e = [] then d else message e)"

definition verify_exit_marker :: "'w Collaborators \<Rightarrow> string \<Rightarrow> 'w Session \<Rightarrow> 'w Handled" where
  "verify_exit_marker env markerJson st =
     (let failed = (\<lambda>e. error_result (obj
            [(''valid'', Some (JBool False)),
             (''error'', Some (JStr (message_or e ''Verification failed'')))]))
      in case fromJSON env markerJson of
        Inl e \<Rightarrow> (Inr (failed e), st)
      | Inr marker \<Rightarrow>
          (case verifyMarker env (world st) marker of
             Inl e \<Rightarrow> (Inr (failed e), st)
           | Inr verifyResult \<Rightarrow>
               (Inr (ok_result (obj
                  [(''valid'', valid_of verifyResult),
                   (''subject'', Some (JStr (subject marker))),
                   (''exitType'', Some (JStr (ExitType_name (exitType marker)))),
                   (''timestamp'', Some (JNum (timestamp marker))),
                   (''id'', Some (JStr (marker_id marker)))])),
                st)))"

text \<open>The \<^verbatim>\<open>catch\<close> branch shared by the admission tools.\<close>

definition admission_failed :: "error \<Rightarrow> ToolResult" where
  "admission_failed e = error_result (obj
     [(''admitted'', Some (JBool False)), (''error'', Some (JStr (message e)))])"

definition verify_and_admit ::
  "'w Collaborators \<Rightarrow> CreateServerOptions \<Rightarrow> string \<Rightarrow> string \<Rightarrow> string option
     \<Rightarrow> 'w Session \<Rightarrow> 'w Handled" where
  "verify_and_admit env options exitMarkerJson destination' admissionPolicy st =
     (let name = policyName options admissionPolicy
      in case fromJSON env exitMarkerJson of
        Inl e \<Rightarrow> (Inr (admission_failed e), st)
      | Inr exitMarker \<Rightarrow>
          (case evaluateAdmission env (world st) exitMarker (admissionPresets name) of
             Inl e \<Rightarrow> (Inr (admission_failed e), st)
           | Inr admission \<Rightarrow>
               if \<not> admitted admission
               then (Inr (ok_result (obj
                       [(''admitted'', Some (JBool False)),
                        (''reasons'', Some (JArr (map JStr (reasons admission))))])),
                     st)
               else (case quickEntry env (world st) exitMarkerJson destination' of
                       (Inl e, w1) \<Rightarrow> (Inr (admission_failed e), st\<lparr>world := w1\<rparr>)
                     | (Inr result, w1) \<Rightarrow>
                         (Inr (ok_result (obj
                            [(''admitted'', Some (JBool True)),
                             (''arrivalMarker'', Some (qe_arrivalMarker result)),
                             (''exitMarkerId'', Some (JStr (marker_id (qe_exitMarker result)))),
                             (''continuity'', Some (qe_continuity result))])),
                          st\<lparr>world := w1\<rparr>))))"

definition evaluate_admission ::
  "'w Collaborators \<Rightarrow> CreateServerOptions \<Rightarrow> string \<Rightarrow> string \<Rightarrow> 'w Session \<Rightarrow> 'w Handled" where
  "evaluate_admission env options exitMarkerJson policy st =
     (let effective = effectivePolicy options policy
      in case fromJSON env exitMarkerJson of
        Inl e \<Rightarrow> (Inr (admission_failed e), st)
      | Inr exitMarker \<Rightarrow>
          (case evaluateAdmission env (world st) exitMarker (admissionPresets effective) of
             Inl e \<Rightarrow> (Inr (admission_failed e), st)
           | Inr result \<Rightarrow>
               (Inr (ok_result (obj
                  [(''admitted'', Some (JBool (admitted result))),
                   (''reasons'', Some (JArr (map JStr (reasons result)))),
                   (''policy'', Some (JStr effective))])),
                st)))"

definition continuity_json :: "Continuity \<Rightarrow> json" where
  "continuity_json c = obj
     [(''valid'', Some (JBool (valid c))),
      (''errors'', Some (JArr (map JStr (continuity_errors c))))]"

definition verify_transfer ::
  "'w Collaborators \<Rightarrow> string \<Rightarrow> string \<Rightarrow> 'w Session \<Rightarrow> 'w Handled" where
  "verify_transfer env exitMarkerJson arrivalMarkerJson st =
     (let failed = (\<lambda>e. error_result (obj
            [(''verified'', Some (JBool False)), (''error'', Some (JStr (message e)))]))
      in case fromJSON env exitMarkerJson of
        Inl e \<Rightarrow> (Inr (failed e), st)
      | Inr exitMarker \<Rightarrow>
          (case JSON_parse env arrivalMarkerJson of
             Inl e \<Rightarrow> (Inr (failed e), st)
           | Inr arrivalMarker \<Rightarrow>
               (case verifyTransfer env (world st) exitMarker arrivalMarker of
                  Inl e \<Rightarrow> (Inr (failed e), st)
                | Inr record \<Rightarrow>
                    (Inr (ok_result (obj
                       [(''verified'', Some (JBool (verified record))),
                        (''transferTime'', Some (JNum (transferTime record))),
                        (''errors'', Some (JArr (map JStr (errors record)))),
                        (''continuity'', Some (continuity_json (continuity record)))])),
                     st))))"

text \<open>The own members of a policy object, as the spread \<^verbatim>\<open>...OPEN_DOOR\<close> copies them.\<close>

definition policy_members :: "AdmissionPolicy \<Rightarrow> (string \<times> json option) list" where
  "policy_members p =
     [(''requireVerifiedDeparture'', Some (JBool (requireVerifiedDeparture p))),
      (''allowedExitTypes'', Some (JArr (map (JStr \<circ> ExitType_name) (allowedExitTypes p)))),
      (''maxAgeSeconds'', map_option JNum (maxAgeSeconds p)),
      (''requiredModules'', Some (JArr (map JStr (requiredModules p))))]"

definition list_admission_policies :: "'w Session \<Rightarrow> 'w Handled" where
  "list_admission_policies st =
     (Inr (ok_result (obj
        [(''policies'', Some (obj
           [(''OPEN_DOOR'', Some (obj
               ((''description'', Some (JStr ''Accept everything with a valid signature''))
                # policy_members OPEN_DOOR))),
            (''STRICT'', Some (obj
               ((''description'', Some (JStr ''Voluntary only, <24h old, requires lineage + stateSnapshot modules''))
                # policy_members STRICT))),
            (''EMERGENCY_ONLY'', Some (obj
               ((''description'', Some (JStr ''Accept only emergency exits''))
                # policy_members EMERGENCY_ONLY)))]))])),
      st)"

text \<open>The eight registered tools with their validated arguments, and the dispatch.\<close>

datatype ToolCall =
    GenerateIdentity
  | QuickExit string "string option" "string option"
  | CreateExitMarker string "string option" "string option"
  | VerifyExitMarker string
  | Admission AdmissionRequest
  | VerifyTransfer string string
  | ListAdmissionPolicies

fun handleAdmission ::
  "'w Collaborators \<Rightarrow> CreateServerOptions \<Rightarrow> AdmissionRequest \<Rightarrow> 'w Session \<Rightarrow> 'w Handled" where
  "handleAdmission env options (VerifyAndAdmit j d p) st = verify_and_admit env options j d p st"
| "handleAdmission env options (EvaluateAdmission j p) st = evaluate_admission env options j p st"

fun callTool ::
  "'w Collaborators \<Rightarrow> CreateServerOptions \<Rightarrow> ToolCall \<Rightarrow> 'w Session \<Rightarrow> 'w Handled" where
  "callTool env options GenerateIdentity st = generate_identity env st"
| "callTool env options (QuickExit orig et r) st = quick_exit env orig et r st"
| "callTool env options (CreateExitMarker orig et r) st = create_exit_marker env orig et r st"
| "callTool env options (VerifyExitMarker j) st = verify_exit_marker env j st"
| "callTool env options (Admission req) st = handleAdmission env options req st"
| "callTool env options (VerifyTransfer ej aj) st = verify_transfer env ej aj st"
| "callTool env options ListAdmissionPolicies st = list_admission_policies st"

section \<open>The admission engine and the continuity verifier\<close>

text \<open>
  Modelled from the spec: whether a marker carries a required module. The engine
  \<^verbatim>\<open>evaluateAdmission\<close> of \<^verbatim>\<open>cellar-door-entry\<close> is not among the sources; section 4.2
  of the specification names \<open>lineage\<close> and \<open>stateSnapshot\<close> as the optional fields a
  module name can stand for, so any other name has no field and counts as absent.
\<close>

definition has_module :: "ExitMarker \<Rightarrow> string \<Rightarrow> bool" where
  "has_module m n =
     (if n = ''lineage'' then lineage m \<noteq> None
      else if n = ''stateSnapshot'' then stateSnapshot m \<noteq> None
      else False)"

text \<open>
  Modelled from the spec: step 4 of the engine of section 4.2 (absent from the sources),
  the loop over \<open>requiredModules\<close> that appends one reason for each missing module.
\<close>

fun required_loop :: "ExitMarker \<Rightarrow> string list \<Rightarrow> string list \<Rightarrow> string list" where
  "required_loop m [] rs = rs"
| "required_loop m (n # ns) rs =
     required_loop m ns
       (if has_module m n then rs else rs @ [''missing required module: '' @ n])"

text \<open>
  Modelled from the spec: the operation \<open>evaluate(exitMarker, policy)\<close> of section 4.2,
  whose implementation (\<^verbatim>\<open>evaluateAdmission\<close> in \<^verbatim>\<open>cellar-door-entry\<close>) is absent from the
  sources. The four checks run in order and every failure appends its reason; the
  signature collaborator \<open>verify\<close> and the instant \<open>now\<close> are arguments.
\<close>

definition evaluate ::
  "(ExitMarker \<Rightarrow> bool) \<Rightarrow> int \<Rightarrow> ExitMarker \<Rightarrow> AdmissionPolicy \<Rightarrow> AdmissionResult" where
  "evaluate verify now m p =
     (let rs0 = [];
          rs1 = (if requireVerifiedDeparture p \<and> \<not> verify m
                 then rs0 @ [''signature invalid''] else rs0);
          rs2 = (if allowedExitTypes p \<noteq> [] \<and> exitType m \<notin> set (allowedExitTypes p)
                 then rs1 @ [''exit type not permitted''] else rs1);
          rs3 = (case maxAgeSeconds p of
                   None \<Rightarrow> rs2
                 | Some a \<Rightarrow> if now - timestamp m > a then rs2 @ [''marker expired''] else rs2);
          rs4 = required_loop m (requiredModules p) rs3
      in \<lparr>admitted = (rs4 = []), reasons = rs4\<rparr>)"

text \<open>
  The checks of section 4.2 as a table, in evaluation order: whether the check fails,
  and the reason it contributes. The engine above is compared with this table.
\<close>

definition checks ::
  "(ExitMarker \<Rightarrow> bool) \<Rightarrow> int \<Rightarrow> ExitMarker \<Rightarrow> AdmissionPolicy \<Rightarrow> (bool \<times> string) list" where
  "checks verify now m p =
     [(requireVerifiedDeparture p \<and> \<not> verify m, ''signature invalid''),
      (allowedExitTypes p \<noteq> [] \<and> exitType m \<notin> set (allowedExitTypes p),
       ''exit type not permitted''),
      (case maxAgeSeconds p of None \<Rightarrow> False | Some a \<Rightarrow> now - timestamp m > a,
       ''marker expired'')]
     @ map (\<lambda>n. (\<not> has_module m n, ''missing required module: '' @ n)) (requiredModules p)"

text \<open>
  Modelled from the spec: the operation \<open>verifyTransfer(exitMarker, arrivalMarker)\<close> of
  section 4.3, whose implementation in \<^verbatim>\<open>cellar-door-entry\<close> is absent from the sources.
  Signature failures go to \<open>errors\<close>, reference and ordering failures to
  \<open>continuity.errors\<close>. The specification fixes the two continuity messages; it leaves
  the wording of the signature errors and the unit of \<open>transferTime\<close> open (here the
  time between the two markers).
\<close>

definition verifyTransfer_spec ::
  "(ExitMarker \<Rightarrow> bool) \<Rightarrow> (ArrivalMarker \<Rightarrow> bool) \<Rightarrow> ExitMarker \<Rightarrow> ArrivalMarker
     \<Rightarrow> TransferRecord" where
  "verifyTransfer_spec verifyExit verifyArrival e a =
     (let es0 = [];
          es1 = (if verifyExit e then es0 else es0 @ [''exit marker signature invalid'']);
          es2 = (if verifyArrival a then es1 else es1 @ [''arrival marker signature invalid'']);
          cs0 = [];
          cs1 = (if exitMarkerId a = marker_id e then cs0
                 else cs0 @ [''arrival does not reference this exit'']);
          cs2 = (if arrival_timestamp a \<ge> timestamp e then cs1
                 else cs1 @ [''arrival precedes departure''])
      in \<lparr>verified = (es2 = [] \<and> cs2 = []),
          transferTime = arrival_timestamp a - timestamp e,
          errors = es2,
          continuity = \<lparr>valid = (cs2 = []), continuity_errors = cs2\<rparr>\<rparr>)"

section \<open>The collaborators' world, and one instance of them\<close>

text \<open>What the libraries read besides their arguments: the wall clock and a random source.\<close>

record World =
  clock :: int
  entropy :: nat

text \<open>
  A small instance of the collaborators on which the handlers can be run: identities
  are numbered by the random source, a signature is a tag derived from the private
  key, a marker counts as signed when it carries one, and the codec knows one marker
  text. Its admission engine applies the \<open>evaluate\<close> above to a preset at the
  instance's clock and throws on anything that is not a preset.
\<close>

definition demo_identity :: "nat \<Rightarrow> Identity" where
  "demo_identity n =
     \<lparr>did = ''did:key:z'' @ replicate (Suc n) CHR ''k'',
      publicKey = ''pub:'' @ replicate (Suc n) CHR ''k'',
      privateKey = ''priv:'' @ replicate (Suc n) CHR ''k''\<rparr>"

definition demo_signed :: "ExitMarker \<Rightarrow> bool" where
  "demo_signed m = (signature m \<noteq> None)"

definition demo_marker :: ExitMarker where
  "demo_marker =
     \<lparr>marker_id = ''exit:1'', subject = ''did:example:agent'', origin = ''did:example:agent'',
      exitType = Voluntary, timestamp = 0, reason = None,
      lineage = Some (JObj []), stateSnapshot = Some (JObj []),
      signature = Some ''sig:k''\<rparr>"

definition demo_arrival :: "json \<Rightarrow> ArrivalMarker option" where
  "demo_arrival v =
     (case v of
        JObj kvs \<Rightarrow>
          (case (map_of kvs ''exitMarkerId'', map_of kvs ''destination'', map_of kvs ''timestamp'') of
             (Some (JStr i), Some (JStr d), Some (JNum t)) \<Rightarrow>
               Some \<lparr>exitMarkerId = i, destination = d, arrival_timestamp = t,
                     arrival_signature =
                       (case map_of kvs ''signature'' of Some (JStr g) \<Rightarrow> Some g | _ \<Rightarrow> None)\<rparr>
           | _ \<Rightarrow> None)
      | _ \<Rightarrow> None)"

definition demo_evaluateAdmission ::
  "World \<Rightarrow> ExitMarker \<Rightarrow> PresetLookup \<Rightarrow> error + AdmissionResult" where
  "demo_evaluateAdmission w m p =
     (case p of
        Preset pol \<Rightarrow> Inr (evaluate demo_signed (clock w) m pol)
      | Inherited n \<Rightarrow> Inl (Thrown ''Invalid admission policy'')
      | Undefined \<Rightarrow> Inl (Thrown ''Invalid admission policy''))"

definition demo :: "World Collaborators" where
  "demo =
     \<lparr>generateIdentity = (\<lambda>w. (Inr (demo_identity (entropy w)), w\<lparr>entropy := Suc (entropy w)\<rparr>)),
      quickExit = (\<lambda>w orig et r.
         (Inr \<lparr>qx_marker =
                 \<lparr>marker_id = ''exit:'' @ orig, subject = did (demo_identity (entropy w)),
                  origin = orig,
                  exitType = (case et of None \<Rightarrow> Voluntary | Some t \<Rightarrow> t),
                  timestamp = clock w, reason = r, lineage = None, stateSnapshot = None,
                  signature = Some (''sig:'' @ drop 5 (privateKey (demo_identity (entropy w))))\<rparr>,
               qx_identity = demo_identity (entropy w)\<rparr>,
          w\<lparr>entropy := Suc (entropy w)\<rparr>)),
      createMarker = (\<lambda>w subj orig et.
         (case et of
            None \<Rightarrow> Inl (Thrown ''exitType is required'')
          | Some t \<Rightarrow>
              Inr \<lparr>marker_id = ''exit:'' @ orig, subject = subj, origin = orig, exitType = t,
                   timestamp = clock w, reason = None, lineage = None, stateSnapshot = None,
                   signature = None\<rparr>,
          w)),
      signMarker = (\<lambda>w m priv pub. (Inr (m\<lparr>signature := Some (''sig:'' @ drop 5 priv)\<rparr>), w)),
      verifyMarker = (\<lambda>w m. Inr (JObj [(''valid'', JBool (demo_signed m)), (''errors'', JArr [])])),
      toJSON = (\<lambda>m. Inr (''marker '' @ marker_id m)),
      fromJSON = (\<lambda>s. if s = ''exit-marker-1'' then Inr demo_marker
                       else Inl (Thrown ''Invalid marker'')),
      JSON_parse = (\<lambda>s. if s = ''{}'' then Inr (JObj [])
                         else if take 7 s = ''marker '' then Inr (JObj [(''id'', JStr (drop 7 s))])
                         else Inl (Thrown ''Unexpected token'')),
      evaluateAdmission = demo_evaluateAdmission,
      quickEntry = (\<lambda>w j d.
         (if j = ''exit-marker-1''
          then Inr \<lparr>qe_arrivalMarker = JObj [(''exitMarkerId'', JStr (marker_id demo_marker)),
                                             (''destination'', JStr d),
                                             (''timestamp'', JNum (clock w))],
                    qe_exitMarker = demo_marker,
                    qe_continuity = JObj [(''valid'', JBool True), (''errors'', JArr [])]\<rparr>
          else Inl (Thrown ''Invalid marker''),
          w\<lparr>entropy := Suc (entropy w)\<rparr>)),
      verifyTransfer = (\<lambda>w m v.
         (case demo_arrival v of
            None \<Rightarrow> Inl (Thrown ''Cannot read properties of undefined'')
          | Some a \<Rightarrow> Inr (verifyTransfer_spec demo_signed (\<lambda>a. arrival_signature a \<noteq> None) m a)))\<rparr>"

section \<open>Relabelling private keys\<close>

text \<open>
  To say that a response carries no key material, every private key is replaced by
  its image under a function \<open>h\<close> and every public key by its image under \<open>g\<close>: in
  the identities the libraries hand out and in the session's cached identity. Two sets
  of collaborators are \<open>relabelled\<close> when they differ in nothing else: signing with the
  relabelled keys gives what signing with the original ones gave, and every other
  function is the same.
\<close>

definition relabel :: "(string \<Rightarrow> string) \<Rightarrow> (string \<Rightarrow> string) \<Rightarrow> Identity \<Rightarrow> Identity" where
  "relabel h g i = i\<lparr>privateKey := h (privateKey i), publicKey := g (publicKey i)\<rparr>"

definition relabel_session ::
  "(string \<Rightarrow> string) \<Rightarrow> (string \<Rightarrow> string) \<Rightarrow> 'w Session \<Rightarrow> 'w Session" where
  "relabel_session h g st =
     st\<lparr>sessionIdentity := map_option (relabel h g) (sessionIdentity st)\<rparr>"

definition relabelled ::
  "(string \<Rightarrow> string) \<Rightarrow> (string \<Rightarrow> string) \<Rightarrow> 'w Collaborators \<Rightarrow> 'w Collaborators
     \<Rightarrow> bool" where
  "relabelled h g env env' =
     ((\<forall>w. generateIdentity env' w =
            (map_sum id (relabel h g) (fst (generateIdentity env w)), snd (generateIdentity env w)))
      \<and> (\<forall>w orig et r. quickExit env' w orig et r =
            (map_sum id (\<lambda>q. q\<lparr>qx_identity := relabel h g (qx_identity q)\<rparr>)
               (fst (quickExit env w orig et r)),
             snd (quickExit env w orig et r)))
      \<and> (\<forall>w m k p. signMarker env' w m (h k) (g p) = signMarker env w m k p)
      \<and> createMarker env' = createMarker env
      \<and> verifyMarker env' = verifyMarker env
      \<and> toJSON env' = toJSON env
      \<and> fromJSON env' = fromJSON env
      \<and> JSON_parse env' = JSON_parse env
      \<and> evaluateAdmission env' = evaluateAdmission env
      \<and> quickEntry env' = quickEntry env
      \<and> verifyTransfer env' = verifyTransfer env)"

text \<open>The instance above with every key prefixed by a mark.\<close>

definition mask :: "string \<Rightarrow> string" where
  "mask k = CHR ''#'' # k"

definition masked_demo :: "World Collaborators" where
  "masked_demo = demo
     \<lparr>generateIdentity := (\<lambda>w.
        (map_sum id (relabel mask mask) (fst (generateIdentity demo w)), snd (generateIdentity demo w))),
      quickExit := (\<lambda>w orig et r.
        (map_sum id (\<lambda>q. q\<lparr>qx_identity := relabel mask mask (qx_identity q)\<rparr>)
           (fst (quickExit demo w orig et r)),
         snd (quickExit demo w orig et r))),
      signMarker := (\<lambda>w m k p. signMarker demo w m (tl k) (tl p))\<rparr>"

text \<open>
  What the input schema lets through to an admission handler: a caller-supplied policy
  name, when there is one, is a member of the \<^verbatim>\<open>z.enum\<close>.
\<close>

definition schema_ok :: "AdmissionRequest \<Rightarrow> bool" where
  "schema_ok req = (case callerPolicy req of None \<Rightarrow> True | Some p \<Rightarrow> p \<in> set policy_enum)"

section \<open>Policy resolution\<close>

text \<open>
  Claim C1. In both admission tools, when a deployment-configured \<open>serverPolicy\<close> is
  set, the name that is resolved is \<open>serverPolicy\<close> and the policy the handler hands to
  the engine is what the preset table holds under that name: the handler's answer is
  the engine's verdict under \<open>admissionPresets serverPolicy\<close> on the decoded marker (a
  refusal with the engine's reasons, or the arrival made by \<open>quickEntry\<close>, for
  \<open>verify_and_admit\<close>; the verdict labelled with \<open>serverPolicy\<close> for
  \<open>evaluate_admission\<close>). The caller-supplied name has no influence: two requests to the
  same tool that differ only in that name resolve to the same policy and, run against
  the same collaborators in the same session, give the same result and the same
  session.
\<close>

theorem serverPolicy_overrides_caller:
  assumes "serverPolicy options = Some s" and "sameExceptPolicy r1 r2"
  shows "resolvedName options r1 = s
     \<and> resolvedPolicy options r1 = admissionPresets s
     \<and> resolvedPolicy options r2 = resolvedPolicy options r1
     \<and> handleAdmission env options r2 st = handleAdmission env options r1 st
     \<and> handleAdmission env options r1 st =
         (case r1 of
            VerifyAndAdmit j d p \<Rightarrow>
              (case fromJSON env j of
                 Inl e \<Rightarrow> (Inr (admission_failed e), st)
               | Inr m \<Rightarrow>
                   (case evaluateAdmission env (world st) m (admissionPresets s) of
                      Inl e \<Rightarrow> (Inr (admission_failed e), st)
                    | Inr a \<Rightarrow>
                        if \<not> admitted a
                        then (Inr \<lparr>payload = JObj [(''admitted'', JBool False),
                                                     (''reasons'', JArr (map JStr (reasons a)))],
                                   isError = False\<rparr>, st)
                        else (case quickEntry env (world st) j d of
                                (Inl e, w1) \<Rightarrow> (Inr (admission_failed e), st\<lparr>world := w1\<rparr>)
                              | (Inr result, w1) \<Rightarrow>
                                  (Inr \<lparr>payload = JObj
                                          [(''admitted'', JBool True),
                                           (''arrivalMarker'', qe_arrivalMarker result),
                                           (''exitMarkerId'', JStr (marker_id (qe_exitMarker result))),
                                           (''continuity'', qe_continuity result)],
                                        isError = False\<rparr>,
                                   st\<lparr>world := w1\<rparr>))))
          | EvaluateAdmission j p \<Rightarrow>
              (case fromJSON env j of
                 Inl e \<Rightarrow> (Inr (admission_failed e), st)
               | Inr m \<Rightarrow>
                   (case evaluateAdmission env (world st) m (admissionPresets s) of
                      Inl e \<Rightarrow> (Inr (admission_failed e), st)
                    | Inr a \<Rightarrow>
                        (Inr \<lparr>payload = JObj [(''admitted'', JBool (admitted a)),
                                               (''reasons'', JArr (map JStr (reasons a))),
                                               (''policy'', JStr s)],
                              isError = False\<rparr>, st))))"
  using assms
  by (cases r1; cases r2)
     (simp_all add: resolvedPolicy_def policyName_def effectivePolicy_def
        verify_and_admit_def evaluate_admission_def ok_result_def obj_def
        split: sum.split prod.split)

theorem serverPolicy_overrides_caller_witness:
  "serverPolicy \<lparr>serverPolicy = Some ''EMERGENCY_ONLY''\<rparr> = Some ''EMERGENCY_ONLY''
   \<and> sameExceptPolicy (VerifyAndAdmit ''exit-marker-1'' ''did:example:dest'' (Some ''OPEN_DOOR''))
        (VerifyAndAdmit ''exit-marker-1'' ''did:example:dest'' None)
   \<and> resolvedPolicy \<lparr>serverPolicy = Some ''EMERGENCY_ONLY''\<rparr>
        (VerifyAndAdmit ''exit-marker-1'' ''did:example:dest'' (Some ''OPEN_DOOR''))
      = Preset EMERGENCY_ONLY
   \<and> resolvedPolicy \<lparr>serverPolicy = Some ''EMERGENCY_ONLY''\<rparr>
        (VerifyAndAdmit ''exit-marker-1'' ''did:example:dest'' None)
      = Preset EMERGENCY_ONLY
   \<and> handleAdmission demo \<lparr>serverPolicy = Some ''EMERGENCY_ONLY''\<rparr>
        (VerifyAndAdmit ''exit-marker-1'' ''did:example:dest'' (Some ''OPEN_DOOR''))
        (createServer \<lparr>clock = 0, entropy = 0\<rparr>)
      = (Inr \<lparr>payload = JObj [(''admitted'', JBool False),
                                (''reasons'', JArr [JStr ''exit type not permitted''])],
               isError = False\<rparr>,
         createServer \<lparr>clock = 0, entropy = 0\<rparr>)"
  using serverPolicy_overrides_caller
    [of "\<lparr>serverPolicy = Some ''EMERGENCY_ONLY''\<rparr>" "''EMERGENCY_ONLY''"
        "VerifyAndAdmit ''exit-marker-1'' ''did:example:dest'' (Some ''OPEN_DOOR'')"
        "VerifyAndAdmit ''exit-marker-1'' ''did:example:dest'' None"
        demo "createServer \<lparr>clock = 0, entropy = 0\<rparr>"]
  by (simp add: admissionPresets_def demo_def createServer_def demo_evaluateAdmission_def
        evaluate_def EMERGENCY_ONLY_def demo_marker_def demo_signed_def)

text \<open>
  Claim C2, as stated: a policy name outside the three presets, caller-supplied or
  deployment-configured, makes resolution fail with \<open>UnknownPolicyError\<close> and is never
  treated as the default. It fails for the deployment-configured name: \<^verbatim>\<open>main\<close> drops
  the unrecognised value \<open>STRICTT\<close> of \<^verbatim>\<open>CELLAR_DOOR_SERVER_POLICY\<close>, and a request
  without a policy name then resolves to the default \<open>OPEN_DOOR\<close>.
\<close>

theorem unknown_configured_policy_counterexample:
  "''STRICTT'' \<notin> set policy_enum
   \<and> main_options (Some ''STRICTT'') = \<lparr>serverPolicy = None\<rparr>
   \<and> resolvedName (main_options (Some ''STRICTT''))
        (VerifyAndAdmit ''exit-marker-1'' ''did:example:dest'' None) = ''OPEN_DOOR''
   \<and> resolvedPolicy (main_options (Some ''STRICTT''))
        (VerifyAndAdmit ''exit-marker-1'' ''did:example:dest'' None) = Preset OPEN_DOOR"
  by (simp add: policy_enum_def main_options_def resolvedPolicy_def policyName_def
        admissionPresets_def)

text \<open>
  Claim C2, amended. Resolution raises no error of its own. A deployment-configured
  name outside the three presets is dropped by \<^verbatim>\<open>main\<close>, leaving \<open>serverPolicy\<close> unset, so
  that resolution goes on from the caller's name or the default. With the caller's name
  confined to the three presets by the input schema, the name resolved in a server
  started by \<^verbatim>\<open>main\<close> is always one of the three presets and its lookup always finds a
  policy.
\<close>

theorem main_resolves_to_presets_only:
  assumes "schema_ok req"
  shows "resolvedName (main_options envPolicy) req \<in> set policy_enum
     \<and> (\<exists>pol. resolvedPolicy (main_options envPolicy) req = Preset pol)
     \<and> (\<forall>p. envPolicy = Some p \<and> p \<notin> set policy_enum
            \<longrightarrow> main_options envPolicy = \<lparr>serverPolicy = None\<rparr>)"
  using assms
  by (cases req; cases envPolicy)
     (auto simp: schema_ok_def main_options_def policy_enum_def resolvedPolicy_def
        policyName_def effectivePolicy_def admissionPresets_def split: option.splits)

theorem main_resolves_to_presets_only_witness:
  "schema_ok (VerifyAndAdmit ''exit-marker-1'' ''did:example:dest'' (Some ''STRICT''))
   \<and> resolvedName (main_options (Some ''STRICTT''))
        (VerifyAndAdmit ''exit-marker-1'' ''did:example:dest'' (Some ''STRICT'')) = ''STRICT''
   \<and> main_options (Some ''STRICTT'') = \<lparr>serverPolicy = None\<rparr>"
  using main_resolves_to_presets_only
    [of "VerifyAndAdmit ''exit-marker-1'' ''did:example:dest'' (Some ''STRICT'')" "Some ''STRICTT''"]
  by (simp add: schema_ok_def policy_enum_def main_options_def policyName_def)

text \<open>
  Claim C4. When no \<open>serverPolicy\<close> is configured and the caller supplies no policy
  name, the policy handed to the admission engine is exactly the \<open>OPEN_DOOR\<close> preset, and
  the check is not skipped: such a request is a \<open>verify_and_admit\<close> without a name (the
  schema of \<open>evaluate_admission\<close> requires one), and its answer is the engine's verdict
  under \<open>OPEN_DOOR\<close> on the decoded marker: a refusal with the engine's reasons when it
  does not admit, the arrival made by \<open>quickEntry\<close> only when it admits, an error result
  when decoding or the engine fails.
\<close>

theorem resolution_default_OPEN_DOOR:
  assumes "serverPolicy options = None" and "callerPolicy req = None"
  shows "resolvedName options req = ''OPEN_DOOR''
     \<and> resolvedPolicy options req = Preset OPEN_DOOR
     \<and> (\<exists>j d. req = VerifyAndAdmit j d None
          \<and> handleAdmission env options req st =
              (case fromJSON env j of
                 Inl e \<Rightarrow> (Inr (admission_failed e), st)
               | Inr m \<Rightarrow>
                   (case evaluateAdmission env (world st) m (Preset OPEN_DOOR) of
                      Inl e \<Rightarrow> (Inr (admission_failed e), st)
                    | Inr a \<Rightarrow>
                        if \<not> admitted a
                        then (Inr \<lparr>payload = JObj [(''admitted'', JBool False),
                                                     (''reasons'', JArr (map JStr (reasons a)))],
                                   isError = False\<rparr>, st)
                        else (case quickEntry env (world st) j d of
                                (Inl e, w1) \<Rightarrow> (Inr (admission_failed e), st\<lparr>world := w1\<rparr>)
                              | (Inr result, w1) \<Rightarrow>
                                  (Inr \<lparr>payload = JObj
                                          [(''admitted'', JBool True),
                                           (''arrivalMarker'', qe_arrivalMarker result),
                                           (''exitMarkerId'', JStr (marker_id (qe_exitMarker result))),
                                           (''continuity'', qe_continuity result)],
                                        isError = False\<rparr>,
                                   st\<lparr>world := w1\<rparr>)))))"
  using assms
  by (cases req)
     (simp_all add: resolvedPolicy_def policyName_def admissionPresets_def
        verify_and_admit_def ok_result_def obj_def split: sum.split prod.split)

theorem resolution_default_OPEN_DOOR_witness:
  "serverPolicy \<lparr>serverPolicy = None\<rparr> = None
   \<and> callerPolicy (VerifyAndAdmit ''unsigned'' ''did:example:dest'' None) = None
   \<and> resolvedPolicy \<lparr>serverPolicy = None\<rparr> (VerifyAndAdmit ''unsigned'' ''did:example:dest'' None)
       = Preset OPEN_DOOR
   \<and> handleAdmission (demo\<lparr>fromJSON := (\<lambda>t. Inr (demo_marker\<lparr>signature := None\<rparr>))\<rparr>)
        \<lparr>serverPolicy = None\<rparr> (VerifyAndAdmit ''unsigned'' ''did:example:dest'' None)
        (createServer \<lparr>clock = 0, entropy = 0\<rparr>)
      = (Inr \<lparr>payload = JObj [(''admitted'', JBool False),
                                (''reasons'', JArr [JStr ''signature invalid''])],
               isError = False\<rparr>,
         createServer \<lparr>clock = 0, entropy = 0\<rparr>)"
  using resolution_default_OPEN_DOOR
    [of "\<lparr>serverPolicy = None\<rparr>" "VerifyAndAdmit ''unsigned'' ''did:example:dest'' None"
        "demo\<lparr>fromJSON := (\<lambda>t. Inr (demo_marker\<lparr>signature := None\<rparr>))\<rparr>"
        "createServer \<lparr>clock = 0, entropy = 0\<rparr>"]
  by (simp add: demo_def createServer_def demo_evaluateAdmission_def evaluate_def
        OPEN_DOOR_def demo_marker_def demo_signed_def)

section \<open>A refused admission\<close>

text \<open>
  Claim C3. When the exit marker decodes and its evaluation against the resolved
  policy yields \<open>admitted = false\<close>, \<open>verify_and_admit\<close> returns the plain result
  \<open>{admitted: false, reasons}\<close> without the error flag, not an exception; the session
  and the collaborators' world are as before, and the result does not depend on
  \<open>quickEntry\<close>, the only function that creates and signs an arrival marker.
\<close>

theorem rejection_is_normal_result:
  assumes "fromJSON env j = Inr m"
    and "evaluateAdmission env (world st) m (admissionPresets (policyName options p)) = Inr a"
    and "\<not> admitted a"
  shows "verify_and_admit env options j d p st =
           (Inr \<lparr>payload = JObj [(''admitted'', JBool False),
                                 (''reasons'', JArr (map JStr (reasons a)))],
                 isError = False\<rparr>, st)
     \<and> (\<forall>qe. verify_and_admit (env\<lparr>quickEntry := qe\<rparr>) options j d p st =
               verify_and_admit env options j d p st)"
  using assms
  by (simp add: verify_and_admit_def ok_result_def obj_def)

theorem rejection_is_normal_result_witness:
  "fromJSON demo ''exit-marker-1'' = Inr demo_marker
   \<and> evaluateAdmission demo \<lparr>clock = 0, entropy = 0\<rparr> demo_marker
        (admissionPresets (policyName \<lparr>serverPolicy = None\<rparr> (Some ''EMERGENCY_ONLY'')))
      = Inr \<lparr>admitted = False, reasons = [''exit type not permitted'']\<rparr>
   \<and> verify_and_admit demo \<lparr>serverPolicy = None\<rparr> ''exit-marker-1'' ''did:example:dest''
        (Some ''EMERGENCY_ONLY'') (createServer \<lparr>clock = 0, entropy = 0\<rparr>)
      = (Inr \<lparr>payload = JObj [(''admitted'', JBool False),
                                (''reasons'', JArr [JStr ''exit type not permitted''])],
               isError = False\<rparr>,
         createServer \<lparr>clock = 0, entropy = 0\<rparr>)"
proof -
  have a: "fromJSON demo ''exit-marker-1'' = Inr demo_marker"
    by (simp add: demo_def)
  have b: "evaluateAdmission demo (world (createServer \<lparr>clock = 0, entropy = 0\<rparr>)) demo_marker
        (admissionPresets (policyName \<lparr>serverPolicy = None\<rparr> (Some ''EMERGENCY_ONLY'')))
      = Inr \<lparr>admitted = False, reasons = [''exit type not permitted'']\<rparr>"
    by (simp add: demo_def createServer_def policyName_def admissionPresets_def
          demo_evaluateAdmission_def evaluate_def EMERGENCY_ONLY_def demo_marker_def
          demo_signed_def)
  have c: "\<not> admitted \<lparr>admitted = False, reasons = [''exit type not permitted'']\<rparr>"
    by simp
  show ?thesis
    using a b rejection_is_normal_result [OF a b c, of "''did:example:dest''"]
    by (simp add: createServer_def)
qed

section \<open>The admission engine\<close>


lemma required_loop_append:
  "required_loop m ns rs =
     rs @ map snd (filter fst
            (map (\<lambda>n. (\<not> has_module m n, ''missing required module: '' @ n)) ns))"
  by (induction ns arbitrary: rs) simp_all

text \<open>
  Claim C7. For every policy and marker, \<open>admitted\<close> is false exactly when \<open>reasons\<close> is
  non-empty, and \<open>reasons\<close> is the list of the reasons of all failed checks, in the order
  of the checks (signature, exit type, age, then the required modules in the policy's
  order): every failure is listed, not only the first.
\<close>

theorem evaluate_reasons:
  "(\<not> admitted (evaluate verify now m p)) = (reasons (evaluate verify now m p) \<noteq> [])
   \<and> reasons (evaluate verify now m p) = map snd (filter fst (checks verify now m p))"
  by (simp add: evaluate_def checks_def Let_def required_loop_append split: option.split)

text \<open>
  The example of section 8 of the specification: an \<open>Emergency\<close> marker two days old,
  evaluated under \<open>STRICT\<close>, is refused for its exit type and for its age at once.
\<close>

lemma evaluate_accumulates_example:
  "evaluate demo_signed 172800 (demo_marker\<lparr>exitType := Emergency\<rparr>) STRICT
     = \<lparr>admitted = False, reasons = [''exit type not permitted'', ''marker expired'']\<rparr>"
  by (simp add: evaluate_def STRICT_def demo_marker_def demo_signed_def has_module_def)



section \<open>Transfer continuity\<close>

text \<open>
  Claim C8. When the arrival marker's \<open>exitMarkerId\<close> differs from the exit marker's
  id, \<open>verifyTransfer\<close> returns a record with \<open>continuity.valid = false\<close> whose continuity
  errors contain the reference-mismatch error, whatever the two signature checks say
  (so also when both succeed), and \<open>verified\<close> is false. In general \<open>verified\<close> is true
  exactly when both signature checks pass and continuity is valid, and continuity is
  valid exactly when the reference and the ordering check pass.
\<close>

theorem reference_mismatch_breaks_continuity:
  "(exitMarkerId a \<noteq> marker_id e \<longrightarrow>
      \<not> valid (continuity (verifyTransfer_spec verifyExit verifyArrival e a))
      \<and> ''arrival does not reference this exit''
          \<in> set (continuity_errors (continuity (verifyTransfer_spec verifyExit verifyArrival e a)))
      \<and> \<not> verified (verifyTransfer_spec verifyExit verifyArrival e a))
   \<and> (verified (verifyTransfer_spec verifyExit verifyArrival e a) =
        (verifyExit e \<and> verifyArrival a
         \<and> valid (continuity (verifyTransfer_spec verifyExit verifyArrival e a))))
   \<and> (valid (continuity (verifyTransfer_spec verifyExit verifyArrival e a)) =
        (exitMarkerId a = marker_id e \<and> timestamp e \<le> arrival_timestamp a))"
  by (simp add: verifyTransfer_spec_def Let_def)

theorem reference_mismatch_breaks_continuity_witness:
  "exitMarkerId \<lparr>exitMarkerId = ''exit:2'', destination = ''did:example:dest'',
                 arrival_timestamp = 10, arrival_signature = Some ''sig''\<rparr> \<noteq> marker_id demo_marker
   \<and> verifyTransfer_spec (\<lambda>e. True) (\<lambda>a. True) demo_marker
        \<lparr>exitMarkerId = ''exit:2'', destination = ''did:example:dest'',
         arrival_timestamp = 10, arrival_signature = Some ''sig''\<rparr>
      = \<lparr>verified = False, transferTime = 10, errors = [],
         continuity = \<lparr>valid = False,
                       continuity_errors = [''arrival does not reference this exit'']\<rparr>\<rparr>"
  using reference_mismatch_breaks_continuity
    [of "\<lparr>exitMarkerId = ''exit:2'', destination = ''did:example:dest'',
          arrival_timestamp = 10, arrival_signature = Some ''sig''\<rparr>" demo_marker
        "\<lambda>e. True" "\<lambda>a. True"]
  by (simp add: verifyTransfer_spec_def demo_marker_def)

text \<open>
  Claim C10. In \<open>verify_transfer\<close> only the exit marker goes through the codec. The
  arrival marker is parsed by \<^verbatim>\<open>JSON.parse\<close> alone: whenever the exit marker decodes and
  the arrival text is valid JSON, the parsed value, whatever its shape, is what
  \<open>verifyTransfer\<close> receives, and the response is built from what \<open>verifyTransfer\<close>
  answers. What the codec would say about any other text, the arrival text included,
  has no effect on the result.
\<close>

theorem arrival_marker_not_validated:
  assumes "fromJSON env ej = Inr m" and "JSON_parse env aj = Inr v"
  shows "fst (verify_transfer env ej aj st) =
           (case verifyTransfer env (world st) m v of
              Inl e \<Rightarrow> Inr (error_result (obj
                 [(''verified'', Some (JBool False)), (''error'', Some (JStr (message e)))]))
            | Inr r \<Rightarrow> Inr (ok_result (obj
                 [(''verified'', Some (JBool (verified r))),
                  (''transferTime'', Some (JNum (transferTime r))),
                  (''errors'', Some (JArr (map JStr (errors r)))),
                  (''continuity'', Some (continuity_json (continuity r)))])))
     \<and> (\<forall>f. f ej = fromJSON env ej \<longrightarrow>
            verify_transfer (env\<lparr>fromJSON := f\<rparr>) ej aj st = verify_transfer env ej aj st)"
  using assms
  by (simp add: verify_transfer_def split: sum.split)

theorem arrival_marker_not_validated_witness:
  "fromJSON demo ''exit-marker-1'' = Inr demo_marker
   \<and> JSON_parse demo ''{}'' = Inr (JObj [])
   \<and> fromJSON demo ''{}'' = Inl (Thrown ''Invalid marker'')
   \<and> fst (verify_transfer demo ''exit-marker-1'' ''{}'' (createServer \<lparr>clock = 0, entropy = 0\<rparr>))
      = (case verifyTransfer demo \<lparr>clock = 0, entropy = 0\<rparr> demo_marker (JObj []) of
           Inl e \<Rightarrow> Inr (error_result (obj
              [(''verified'', Some (JBool False)), (''error'', Some (JStr (message e)))]))
         | Inr r \<Rightarrow> Inr (ok_result (obj
              [(''verified'', Some (JBool (verified r))),
               (''transferTime'', Some (JNum (transferTime r))),
               (''errors'', Some (JArr (map JStr (errors r)))),
               (''continuity'', Some (continuity_json (continuity r)))])))"
proof -
  have a: "fromJSON demo ''exit-marker-1'' = Inr demo_marker"
    by (simp add: demo_def)
  have b: "JSON_parse demo ''{}'' = Inr (JObj [])"
    by (simp add: demo_def)
  have c: "fromJSON demo ''{}'' = Inl (Thrown ''Invalid marker'')"
    by (simp add: demo_def)
  show ?thesis
    using a b c arrival_marker_not_validated [OF a b, of "createServer \<lparr>clock = 0, entropy = 0\<rparr>"]
    by (simp add: createServer_def)
qed

section \<open>The session identity\<close>

text \<open>
  What \<open>quick_exit\<close> answers, and the world it leaves, do not depend on the cached
  identity: the handler never reads \<open>sessionIdentity\<close>, it only overwrites it.
\<close>

lemma quick_exit_ignores_sessionIdentity:
  "fst (quick_exit env orig et r (st\<lparr>sessionIdentity := c\<rparr>)) = fst (quick_exit env orig et r st)
   \<and> world (snd (quick_exit env orig et r (st\<lparr>sessionIdentity := c\<rparr>)))
       = world (snd (quick_exit env orig et r st))"
  by (simp add: quick_exit_def Let_def split: prod.split sum.split)

text \<open>The sibling \<open>create_exit_marker\<close> keeps a cached identity.\<close>

lemma create_exit_marker_keeps_sessionIdentity:
  assumes "sessionIdentity st = Some i"
  shows "sessionIdentity (snd (create_exit_marker env orig et r st)) = Some i"
  using assms
  by (simp add: create_exit_marker_def Let_def split: prod.split sum.split)

text \<open>
  Claim C6 says that a signing operation invoked when an identity is cached signs
  with that identity. Here \<open>generate_identity\<close> caches the identity \<open>did:key:zk\<close>, and the
  \<open>quick_exit\<close> that follows answers with the signer \<open>did:key:zkk\<close> and leaves that new
  identity in the cache: the cached one was neither used nor kept.
\<close>

theorem quick_exit_replaces_cached_identity:
  "callTool demo \<lparr>serverPolicy = None\<rparr> GenerateIdentity (createServer \<lparr>clock = 0, entropy = 0\<rparr>)
     = (Inr \<lparr>payload = JObj [(''did'', JStr ''did:key:zk''), (''message'', JStr identity_message)],
              isError = False\<rparr>,
        \<lparr>sessionIdentity = Some (demo_identity 0), world = \<lparr>clock = 0, entropy = 1\<rparr>\<rparr>)
   \<and> callTool demo \<lparr>serverPolicy = None\<rparr> (QuickExit ''did:example:x'' None None)
        \<lparr>sessionIdentity = Some (demo_identity 0), world = \<lparr>clock = 0, entropy = 1\<rparr>\<rparr>
     = (Inr \<lparr>payload = JObj [(''marker'', JObj [(''id'', JStr ''exit:did:example:x'')]),
                               (''signerDid'', JStr ''did:key:zkk''),
                               (''verified'', JBool True)],
              isError = False\<rparr>,
        \<lparr>sessionIdentity = Some (demo_identity 1), world = \<lparr>clock = 0, entropy = 2\<rparr>\<rparr>)
   \<and> did (demo_identity 0) = ''did:key:zk''
   \<and> demo_identity 1 \<noteq> demo_identity 0"
  by (simp add: generate_identity_def quick_exit_def demo_def createServer_def marker_json_def
        demo_signed_def ok_result_def obj_def demo_identity_def)

section \<open>Private keys stay inside\<close>

lemma relabel_simps [simp]:
  "did (relabel h g i) = did i" "publicKey (relabel h g i) = g (publicKey i)"
  "privateKey (relabel h g i) = h (privateKey i)"
  by (simp_all add: relabel_def)

lemma marker_json_relabelled:
  assumes "relabelled h g env env'"
  shows "marker_json env' m = marker_json env m"
proof -
  from assms have tj: "toJSON env' = toJSON env" and jp: "JSON_parse env' = JSON_parse env"
    by (simp_all add: relabelled_def)
  show ?thesis
    by (simp add: marker_json_def tj jp split: sum.split)
qed

lemma generate_identity_relabelled:
  assumes "relabelled h g env env'"
  shows "generate_identity env' (relabel_session h g st) =
           (fst (generate_identity env st), relabel_session h g (snd (generate_identity env st)))"
  using assms
  by (cases "generateIdentity env (world st)"; cases "fst (generateIdentity env (world st))")
     (simp_all add: relabelled_def generate_identity_def relabel_session_def)

lemma quick_exit_relabelled:
  assumes "relabelled h g env env'"
  shows "quick_exit env' orig et r (relabel_session h g st) =
           (fst (quick_exit env orig et r st), relabel_session h g (snd (quick_exit env orig et r st)))"
proof -
  let ?et = "case et of None \<Rightarrow> None | Some k \<Rightarrow> if k = [] then None else ExitType_member k"
  obtain res w1 where q: "quickExit env (world st) orig ?et r = (res, w1)"
    by (cases "quickExit env (world st) orig ?et r")
  note mj = marker_json_relabelled [OF assms]
  from assms q show ?thesis
    by (cases res)
       (simp_all add: relabelled_def quick_exit_def relabel_session_def mj Let_def
          split: sum.split)
qed

lemma create_exit_marker_relabelled:
  assumes "relabelled h g env env'"
  shows "create_exit_marker env' orig et r (relabel_session h g st) =
           (fst (create_exit_marker env orig et r st),
            relabel_session h g (snd (create_exit_marker env orig et r st)))"
proof -
  note mj = marker_json_relabelled [OF assms]
  from assms have sm: "\<And>w m i. signMarker env' w m (h (privateKey i)) (g (publicKey i))
       = signMarker env w m (privateKey i) (publicKey i)"
    by (simp add: relabelled_def)
  from assms have cm: "createMarker env' = createMarker env"
    by (simp add: relabelled_def)
  from assms have gi: "\<And>w. generateIdentity env' w =
            (map_sum id (relabel h g) (fst (generateIdentity env w)), snd (generateIdentity env w))"
    by (simp add: relabelled_def)
  show ?thesis
    by (cases "sessionIdentity st"; cases "generateIdentity env (world st)";
        cases "fst (generateIdentity env (world st))")
       (simp_all add: create_exit_marker_def relabel_session_def mj sm cm gi Let_def
          split: sum.split prod.split)
qed

text \<open>
  Claim C9. No response contains private key material. For every tool call, every
  input and every session: replace each private key, in the cached identity and in
  every identity the libraries hand out, by its image under any function \<open>h\<close> (and
  each public key by its image under any \<open>g\<close>), with the signing collaborator
  producing under the replaced keys what it produced under the original ones. Then the
  response is the same (success payload, error payload or exception alike), and the
  sessions afterwards differ by the relabelling only. So key material reaches a
  response only through what the signing collaborator returns, and what a payload
  takes from an identity is its DID.
\<close>

theorem responses_independent_of_private_keys:
  assumes "relabelled h g env env'"
  shows "callTool env' options call (relabel_session h g st) =
           (fst (callTool env options call st), relabel_session h g (snd (callTool env options call st)))"
proof (cases call)
  case GenerateIdentity
  then show ?thesis using generate_identity_relabelled [OF assms] by simp
next
  case (QuickExit orig et r)
  then show ?thesis using quick_exit_relabelled [OF assms] by simp
next
  case (CreateExitMarker orig et r)
  then show ?thesis using create_exit_marker_relabelled [OF assms] by simp
next
  case (VerifyExitMarker j)
  with assms show ?thesis
    by (simp add: relabelled_def verify_exit_marker_def relabel_session_def Let_def
          split: sum.split)
next
  case (Admission req)
  with assms show ?thesis
    by (cases req)
       (simp_all add: relabelled_def verify_and_admit_def evaluate_admission_def
          relabel_session_def Let_def split: sum.split prod.split)
next
  case (VerifyTransfer ej aj)
  with assms show ?thesis
    by (simp add: relabelled_def verify_transfer_def relabel_session_def Let_def
          split: sum.split)
next
  case ListAdmissionPolicies
  then show ?thesis by (simp add: list_admission_policies_def)
qed

theorem responses_independent_of_private_keys_witness:
  "relabelled mask mask demo masked_demo
   \<and> callTool masked_demo \<lparr>serverPolicy = None\<rparr> (CreateExitMarker ''did:example:x'' None None)
        (relabel_session mask mask
           \<lparr>sessionIdentity = Some (demo_identity 0), world = \<lparr>clock = 5, entropy = 1\<rparr>\<rparr>)
     = (Inr \<lparr>payload = JObj [(''marker'', JObj [(''id'', JStr ''exit:did:example:x'')]),
                               (''signerDid'', JStr ''did:key:zk'')],
              isError = False\<rparr>,
        \<lparr>sessionIdentity = Some (relabel mask mask (demo_identity 0)),
         world = \<lparr>clock = 5, entropy = 1\<rparr>\<rparr>)"
proof -
  have r: "relabelled mask mask demo masked_demo"
    by (simp add: relabelled_def masked_demo_def mask_def demo_def)
  show ?thesis
    using r responses_independent_of_private_keys [OF r, of "\<lparr>serverPolicy = None\<rparr>"
        "CreateExitMarker ''did:example:x'' None None"
        "\<lparr>sessionIdentity = Some (demo_identity 0), world = \<lparr>clock = 5, entropy = 1\<rparr>\<rparr>"]
    by (simp add: create_exit_marker_def demo_def marker_json_def ok_result_def obj_def
          relabel_session_def demo_identity_def)
qed

end
